theory Spec2Isabelle
  imports Main "HOL-Library.Word"
begin

unbundle bit_operations_syntax

section \<open>The AVR relocation backend of the linker (ELF/Arch/AVR.cpp)\<close>

text \<open>
  The backend has two entry points: \<open>AVR::getRelExpr\<close> classifies a relocation type
  code, \<open>AVR::relocateOne\<close> patches a resolved value into the 16-bit little-endian
  code unit(s) at a location of the output buffer. Both report an unknown type code
  through the linker's \<open>error\<close> function.

  C++ integers are modelled with their widths: \<open>uint8_t\<close> is \<open>8 word\<close>,
  \<open>int16_t\<close> and \<open>uint16_t\<close> are \<open>16 word\<close>, \<open>int\<close> is \<open>32 word\<close>,
  \<open>uint32_t\<close> is \<open>32 word\<close> and \<open>uint64_t\<close> is \<open>64 word\<close>. Arithmetic on an
  \<open>int16_t\<close> or \<open>uint16_t\<close> operand is done in \<open>int\<close> after the integer promotion
  (sign extension for \<open>int16_t\<close>, zero extension for \<open>uint16_t\<close>), and a store into
  a 16-bit variable or parameter keeps the low 16 bits. \<open>>>\<close> on a signed operand is the
  arithmetic shift, \<open><<\<close> the two's complement shift.
\<close>

subsection \<open>Integer conversions\<close>

abbreviation (input) promote_s16 :: "16 word \<Rightarrow> 32 word" where
  "promote_s16 v \<equiv> scast v"

abbreviation (input) promote_u16 :: "16 word \<Rightarrow> 32 word" where
  "promote_u16 v \<equiv> ucast v"

abbreviation (input) narrow16 :: "32 word \<Rightarrow> 16 word" where
  "narrow16 v \<equiv> ucast v"

subsection \<open>The output buffer: llvm::support::endian::read16le and write16le\<close>

text \<open>
  \<open>Loc\<close> is a pointer into the output image. The buffer is a store from byte addresses
  to bytes; neither function checks a bound, the caller owns the pointer.
\<close>

type_synonym buffer = "nat \<Rightarrow> 8 word"

definition read16le :: "buffer \<Rightarrow> nat \<Rightarrow> 16 word" where
  "read16le buf Loc = ucast (buf Loc) OR push_bit 8 (ucast (buf (Loc + 1)))"

definition write16le :: "buffer \<Rightarrow> nat \<Rightarrow> 16 word \<Rightarrow> buffer" where
  "write16le buf Loc V = buf(Loc := ucast V, Loc + 1 := ucast (drop_bit 8 V))"

subsection \<open>Diagnostics\<close>

text \<open>
  Modelled from the spec: the function \<open>error\<close> of Error.h, which is not among the
  sources at hand. The specification describes the diagnostics collaborator as a sink
  accepting a formatted message, fire-and-forget, that never unwinds the caller: the
  message is recorded and control returns.
\<close>

definition error :: "string \<Rightarrow> string list \<Rightarrow> string list" where
  "error Msg diags = diags @ [Msg]"

text \<open>
  The renderers used to format a message (\<open>toString\<close> of an input file and of a
  relocation type, \<open>getErrorLocation\<close> of a buffer position) are declared in headers
  outside AVR.cpp; they are parameters of the model.
\<close>

record 'file host =
  toStringFile :: "'file \<Rightarrow> string"
  toStringType :: "32 word \<Rightarrow> string"
  getErrorLocation :: "nat \<Rightarrow> string"

subsection \<open>Relocation expressions and relocation type codes\<close>

text \<open>The members of the linker's \<open>RelExpr\<close> enumeration that this backend returns.\<close>

datatype RelExpr = R_ABS | R_PC | R_HINT

text \<open>
  The relocation type codes of the AVR ELF ABI, as LLVM's ELF definitions give them
  (an external header; AVR.cpp uses the names as \<open>case\<close> labels).
\<close>

definition R_AVR_7_PCREL :: "32 word" where "R_AVR_7_PCREL = 2"
definition R_AVR_13_PCREL :: "32 word" where "R_AVR_13_PCREL = 3"
definition R_AVR_16 :: "32 word" where "R_AVR_16 = 4"
definition R_AVR_16_PM :: "32 word" where "R_AVR_16_PM = 5"
definition R_AVR_LO8_LDI :: "32 word" where "R_AVR_LO8_LDI = 6"
definition R_AVR_HI8_LDI :: "32 word" where "R_AVR_HI8_LDI = 7"
definition R_AVR_HH8_LDI :: "32 word" where "R_AVR_HH8_LDI = 8"
definition R_AVR_LO8_LDI_NEG :: "32 word" where "R_AVR_LO8_LDI_NEG = 9"
definition R_AVR_HI8_LDI_NEG :: "32 word" where "R_AVR_HI8_LDI_NEG = 10"
definition R_AVR_HH8_LDI_NEG :: "32 word" where "R_AVR_HH8_LDI_NEG = 11"
definition R_AVR_LO8_LDI_PM :: "32 word" where "R_AVR_LO8_LDI_PM = 12"
definition R_AVR_HI8_LDI_PM :: "32 word" where "R_AVR_HI8_LDI_PM = 13"
definition R_AVR_HH8_LDI_PM :: "32 word" where "R_AVR_HH8_LDI_PM = 14"
definition R_AVR_LO8_LDI_PM_NEG :: "32 word" where "R_AVR_LO8_LDI_PM_NEG = 15"
definition R_AVR_HI8_LDI_PM_NEG :: "32 word" where "R_AVR_HI8_LDI_PM_NEG = 16"
definition R_AVR_HH8_LDI_PM_NEG :: "32 word" where "R_AVR_HH8_LDI_PM_NEG = 17"
definition R_AVR_CALL :: "32 word" where "R_AVR_CALL = 18"
definition R_AVR_LDI :: "32 word" where "R_AVR_LDI = 19"
definition R_AVR_6 :: "32 word" where "R_AVR_6 = 20"
definition R_AVR_6_ADIW :: "32 word" where "R_AVR_6_ADIW = 21"
definition R_AVR_MS8_LDI :: "32 word" where "R_AVR_MS8_LDI = 22"
definition R_AVR_MS8_LDI_NEG :: "32 word" where "R_AVR_MS8_LDI_NEG = 23"
definition R_AVR_LO8_LDI_GS :: "32 word" where "R_AVR_LO8_LDI_GS = 24"
definition R_AVR_HI8_LDI_GS :: "32 word" where "R_AVR_HI8_LDI_GS = 25"
definition R_AVR_8 :: "32 word" where "R_AVR_8 = 26"
definition R_AVR_8_LO8 :: "32 word" where "R_AVR_8_LO8 = 27"
definition R_AVR_8_HI8 :: "32 word" where "R_AVR_8_HI8 = 28"
definition R_AVR_8_HLO8 :: "32 word" where "R_AVR_8_HLO8 = 29"
definition R_AVR_LDS_STS_16 :: "32 word" where "R_AVR_LDS_STS_16 = 33"
definition R_AVR_PORT6 :: "32 word" where "R_AVR_PORT6 = 34"
definition R_AVR_PORT5 :: "32 word" where "R_AVR_PORT5 = 35"

lemmas R_AVR_defs =
  R_AVR_7_PCREL_def R_AVR_13_PCREL_def R_AVR_16_def R_AVR_16_PM_def R_AVR_LO8_LDI_def
  R_AVR_HI8_LDI_def R_AVR_HH8_LDI_def R_AVR_LO8_LDI_NEG_def R_AVR_HI8_LDI_NEG_def
  R_AVR_HH8_LDI_NEG_def R_AVR_LO8_LDI_PM_def R_AVR_HI8_LDI_PM_def R_AVR_HH8_LDI_PM_def
  R_AVR_LO8_LDI_PM_NEG_def R_AVR_HI8_LDI_PM_NEG_def R_AVR_HH8_LDI_PM_NEG_def
  R_AVR_CALL_def R_AVR_LDI_def R_AVR_6_def R_AVR_6_ADIW_def R_AVR_MS8_LDI_def
  R_AVR_MS8_LDI_NEG_def R_AVR_LO8_LDI_GS_def R_AVR_HI8_LDI_GS_def R_AVR_8_def
  R_AVR_8_LO8_def R_AVR_8_HI8_def R_AVR_8_HLO8_def R_AVR_LDS_STS_16_def R_AVR_PORT6_def
  R_AVR_PORT5_def

subsection \<open>The helpers of AVR.cpp\<close>

text \<open>
  \<open>uint16_t calculateForLDI(uint16_t X, int16_t Val)\<close>:
  \<open>(X & 0xf0f0) | (Val & 0xf) | ((Val << 4) & 0xf00)\<close>, computed in \<open>int\<close>.
\<close>

definition calculateForLDI :: "16 word \<Rightarrow> 16 word \<Rightarrow> 16 word" where
  "calculateForLDI X Val =
     narrow16 ((promote_u16 X AND 0xf0f0) OR (promote_s16 Val AND 0xf)
               OR (push_bit 4 (promote_s16 Val) AND 0xf00))"

text \<open>\<open>Val -= 2\<close> on an \<open>int16_t&\<close>.\<close>

definition adjustRelativeBranch :: "16 word \<Rightarrow> 16 word" where
  "adjustRelativeBranch Val = narrow16 (promote_s16 Val - 2)"

text \<open>\<open>Val >>= 1\<close> on an \<open>int16_t&\<close>.\<close>

definition adjustPM :: "16 word \<Rightarrow> 16 word" where
  "adjustPM Val = narrow16 (signed_drop_bit 1 (promote_s16 Val))"

text \<open>\<open>Val *= -1\<close> on an \<open>int16_t&\<close>.\<close>

definition adjustNeg :: "16 word \<Rightarrow> 16 word" where
  "adjustNeg Val = narrow16 (promote_s16 Val * (- 1))"

subsection \<open>AVR::getRelExpr\<close>

text \<open>
  The symbol and the location are parameters the function never reads; the model takes
  the type code, the file (for the message) and the diagnostics emitted so far.
\<close>

definition getRelExpr ::
  "'file host \<Rightarrow> 32 word \<Rightarrow> 'file \<Rightarrow> string list \<Rightarrow> RelExpr \<times> string list" where
  "getRelExpr h Type File diags =
    (if Type = R_AVR_7_PCREL \<or> Type = R_AVR_13_PCREL then (R_PC, diags)
     else if Type = R_AVR_LO8_LDI \<or> Type = R_AVR_LDI \<or> Type = R_AVR_6
          \<or> Type = R_AVR_6_ADIW \<or> Type = R_AVR_HI8_LDI \<or> Type = R_AVR_HH8_LDI
          \<or> Type = R_AVR_MS8_LDI \<or> Type = R_AVR_LO8_LDI_NEG \<or> Type = R_AVR_HI8_LDI_NEG
          \<or> Type = R_AVR_HH8_LDI_NEG \<or> Type = R_AVR_MS8_LDI_NEG \<or> Type = R_AVR_LO8_LDI_GS
          \<or> Type = R_AVR_LO8_LDI_PM \<or> Type = R_AVR_HI8_LDI_GS \<or> Type = R_AVR_HI8_LDI_PM
          \<or> Type = R_AVR_HH8_LDI_PM \<or> Type = R_AVR_LO8_LDI_PM_NEG
          \<or> Type = R_AVR_HI8_LDI_PM_NEG \<or> Type = R_AVR_HH8_LDI_PM_NEG \<or> Type = R_AVR_8
          \<or> Type = R_AVR_8_LO8 \<or> Type = R_AVR_8_HI8 \<or> Type = R_AVR_8_HLO8
          \<or> Type = R_AVR_CALL \<or> Type = R_AVR_16 \<or> Type = R_AVR_16_PM
          \<or> Type = R_AVR_LDS_STS_16 \<or> Type = R_AVR_PORT6 \<or> Type = R_AVR_PORT5
       then (R_ABS, diags)
     else (R_HINT,
           error (toStringFile h File @ '': unknown relocation type: '' @ toStringType h Type)
             diags))"

subsection \<open>AVR::relocateOne\<close>

text \<open>
  \<open>int16_t SRel = Val\<close> keeps the low 16 bits of the 64-bit value; \<open>X\<close> is the code
  unit read at \<open>Loc\<close>. The branches follow the \<open>switch\<close> in its order. The result is
  the buffer and the diagnostics after the call.
\<close>

definition relocateOne ::
  "'file host \<Rightarrow> buffer \<Rightarrow> nat \<Rightarrow> 32 word \<Rightarrow> 64 word \<Rightarrow> string list
     \<Rightarrow> buffer \<times> string list" where
  "relocateOne h buf Loc Type Val diags =
    (let SRel = (ucast Val :: 16 word);
         X = read16le buf Loc
     in
     if Type = R_AVR_7_PCREL then
       (let SRel = adjustRelativeBranch SRel;
            X = narrow16 ((promote_u16 X AND 0xfc07)
                  OR (push_bit 3 (signed_drop_bit 1 (promote_s16 SRel)) AND 0x3f8))
        in (write16le buf Loc X, diags))
     else if Type = R_AVR_13_PCREL then
       (let SRel = adjustRelativeBranch SRel;
            SRel = adjustPM SRel;
            X = narrow16 ((promote_u16 X AND 0xf000) OR (promote_s16 SRel AND 0xfff))
        in (write16le buf Loc X, diags))
     else if Type = R_AVR_LO8_LDI \<or> Type = R_AVR_LDI then
       (write16le buf Loc (calculateForLDI X SRel), diags)
     else if Type = R_AVR_6 then
       (let X = narrow16 ((promote_u16 X AND 0xd3f8)
                  OR ((promote_s16 SRel AND 7)
                      OR push_bit 7 (promote_s16 SRel AND push_bit 3 3)
                      OR push_bit 8 (promote_s16 SRel AND push_bit 5 1)))
        in (write16le buf Loc X, diags))
     else if Type = R_AVR_6_ADIW then
       (let X = narrow16 ((promote_u16 X AND 0xff30) OR (promote_s16 SRel AND 0xf)
                  OR push_bit 2 (promote_s16 SRel AND 0x30))
        in (write16le buf Loc X, diags))
     else if Type = R_AVR_HI8_LDI then
       (let SRel = narrow16 (signed_drop_bit 8 (promote_s16 SRel) AND 0xff)
        in (write16le buf Loc (calculateForLDI X SRel), diags))
     else if Type = R_AVR_HH8_LDI then
       (let SRel = narrow16 (signed_drop_bit 16 (promote_s16 SRel) AND 0xff)
        in (write16le buf Loc (calculateForLDI X SRel), diags))
     else if Type = R_AVR_MS8_LDI then
       (let SRel = narrow16 (signed_drop_bit 24 (promote_s16 SRel) AND 0xff)
        in (write16le buf Loc (calculateForLDI X SRel), diags))
     else if Type = R_AVR_LO8_LDI_NEG then
       (let SRel = adjustNeg SRel
        in (write16le buf Loc (calculateForLDI X SRel), diags))
     else if Type = R_AVR_HI8_LDI_NEG then
       (let SRel = adjustNeg SRel;
            SRel = narrow16 (signed_drop_bit 8 (promote_s16 SRel) AND 0xff)
        in (write16le buf Loc (calculateForLDI X SRel), diags))
     else if Type = R_AVR_HH8_LDI_NEG then
       (let SRel = adjustNeg SRel;
            SRel = narrow16 (signed_drop_bit 16 (promote_s16 SRel) AND 0xff)
        in (write16le buf Loc (calculateForLDI X SRel), diags))
     else if Type = R_AVR_MS8_LDI_NEG then
       (let SRel = adjustNeg SRel;
            SRel = narrow16 (signed_drop_bit 24 (promote_s16 SRel) AND 0xff)
        in (write16le buf Loc (calculateForLDI X SRel), diags))
     else if Type = R_AVR_LO8_LDI_GS \<or> Type = R_AVR_LO8_LDI_PM then
       (let SRel = adjustPM SRel
        in (write16le buf Loc (calculateForLDI X SRel), diags))
     else if Type = R_AVR_HI8_LDI_GS \<or> Type = R_AVR_HI8_LDI_PM then
       (let SRel = adjustPM SRel;
            SRel = narrow16 (signed_drop_bit 8 (promote_s16 SRel) AND 0xff)
        in (write16le buf Loc (calculateForLDI X SRel), diags))
     else if Type = R_AVR_HH8_LDI_PM then
       (let SRel = adjustPM SRel;
            SRel = narrow16 (signed_drop_bit 16 (promote_s16 SRel) AND 0xff)
        in (write16le buf Loc (calculateForLDI X SRel), diags))
     else if Type = R_AVR_LO8_LDI_PM_NEG then
       (let SRel = adjustNeg SRel;
            SRel = adjustPM SRel
        in (write16le buf Loc (calculateForLDI X SRel), diags))
     else if Type = R_AVR_HI8_LDI_PM_NEG then
       (let SRel = adjustNeg SRel;
            SRel = adjustPM SRel;
            SRel = narrow16 (signed_drop_bit 8 (promote_s16 SRel) AND 0xff)
        in (write16le buf Loc (calculateForLDI X SRel), diags))
     else if Type = R_AVR_HH8_LDI_PM_NEG then
       (let SRel = adjustNeg SRel;
            SRel = adjustPM SRel;
            SRel = narrow16 (signed_drop_bit 16 (promote_s16 SRel) AND 0xff)
        in (write16le buf Loc (calculateForLDI X SRel), diags))
     else if Type = R_AVR_8 then
       (write16le buf Loc (narrow16 (promote_s16 SRel AND 0x000000ff)), diags)
     else if Type = R_AVR_8_LO8 then
       (write16le buf Loc (narrow16 (promote_s16 SRel AND 0xffffff)), diags)
     else if Type = R_AVR_8_HI8 then
       (write16le buf Loc (narrow16 (signed_drop_bit 8 (promote_s16 SRel) AND 0xffffff)),
        diags)
     else if Type = R_AVR_8_HLO8 then
       (write16le buf Loc (narrow16 (signed_drop_bit 16 (promote_s16 SRel) AND 0xffffff)),
        diags)
     else if Type = R_AVR_CALL then
       (let SRel = adjustPM SRel;
            X = narrow16 (promote_u16 X
                  OR signed_drop_bit 16
                       ((promote_s16 SRel AND 0x10000)
                        OR (push_bit 3 (promote_s16 SRel) AND 0x1f00000)));
            buf = write16le buf Loc X
        in (write16le buf (Loc + 2) (narrow16 (promote_s16 SRel AND 0xffff)), diags))
     else if Type = R_AVR_16 then
       (write16le buf Loc (narrow16 (promote_s16 SRel AND 0x00ffff)), diags)
     else if Type = R_AVR_16_PM then
       (let SRel = adjustPM SRel
        in (write16le buf Loc (narrow16 (promote_s16 SRel AND 0x00ffff)), diags))
     else if Type = R_AVR_LDS_STS_16 then
       (let SRel = narrow16 (promote_s16 SRel AND 0x7f);
            X = narrow16 (promote_u16 X
                  OR ((promote_s16 SRel AND 0x0f) OR push_bit 5 (promote_s16 SRel AND 0x30)
                      OR push_bit 2 (promote_s16 SRel AND 0x40)))
        in (write16le buf Loc X, diags))
     else if Type = R_AVR_PORT6 then
       (let X = narrow16 ((promote_u16 X AND 0xf9f0) OR push_bit 5 (promote_s16 SRel AND 0x30)
                  OR (promote_s16 SRel AND 0x0f))
        in (write16le buf Loc X, diags))
     else if Type = R_AVR_PORT5 then
       (let X = narrow16 ((promote_u16 X AND 0xff07) OR push_bit 3 (promote_s16 SRel AND 0x1f))
        in (write16le buf Loc X, diags))
     else (buf, error (getErrorLocation h Loc @ ''unrecognized reloc '' @ toStringType h Type)
                  diags))"

subsection \<open>The two tables\<close>

text \<open>The \<open>case\<close> labels of the \<open>switch\<close> in \<open>AVR::getRelExpr\<close>, in their order.\<close>

definition getRelExpr_cases :: "32 word list" where
  "getRelExpr_cases =
    [R_AVR_7_PCREL, R_AVR_13_PCREL,
     R_AVR_LO8_LDI, R_AVR_LDI, R_AVR_6, R_AVR_6_ADIW, R_AVR_HI8_LDI, R_AVR_HH8_LDI,
     R_AVR_MS8_LDI, R_AVR_LO8_LDI_NEG, R_AVR_HI8_LDI_NEG, R_AVR_HH8_LDI_NEG,
     R_AVR_MS8_LDI_NEG, R_AVR_LO8_LDI_GS, R_AVR_LO8_LDI_PM, R_AVR_HI8_LDI_GS,
     R_AVR_HI8_LDI_PM, R_AVR_HH8_LDI_PM, R_AVR_LO8_LDI_PM_NEG, R_AVR_HI8_LDI_PM_NEG,
     R_AVR_HH8_LDI_PM_NEG, R_AVR_8, R_AVR_8_LO8, R_AVR_8_HI8, R_AVR_8_HLO8, R_AVR_CALL,
     R_AVR_16, R_AVR_16_PM, R_AVR_LDS_STS_16, R_AVR_PORT6, R_AVR_PORT5]"

text \<open>The \<open>case\<close> labels of the \<open>switch\<close> in \<open>AVR::relocateOne\<close>, in their order.\<close>

definition relocateOne_cases :: "32 word list" where
  "relocateOne_cases =
    [R_AVR_7_PCREL, R_AVR_13_PCREL, R_AVR_LO8_LDI, R_AVR_LDI, R_AVR_6, R_AVR_6_ADIW,
     R_AVR_HI8_LDI, R_AVR_HH8_LDI, R_AVR_MS8_LDI, R_AVR_LO8_LDI_NEG, R_AVR_HI8_LDI_NEG,
     R_AVR_HH8_LDI_NEG, R_AVR_MS8_LDI_NEG, R_AVR_LO8_LDI_GS, R_AVR_LO8_LDI_PM,
     R_AVR_HI8_LDI_GS, R_AVR_HI8_LDI_PM, R_AVR_HH8_LDI_PM, R_AVR_LO8_LDI_PM_NEG,
     R_AVR_HI8_LDI_PM_NEG, R_AVR_HH8_LDI_PM_NEG, R_AVR_8, R_AVR_8_LO8, R_AVR_8_HI8,
     R_AVR_8_HLO8, R_AVR_CALL, R_AVR_16, R_AVR_16_PM, R_AVR_LDS_STS_16, R_AVR_PORT6,
     R_AVR_PORT5]"

subsection \<open>Concrete inputs\<close>

text \<open>A host whose renderers return fixed text, for evaluating the functions.\<close>

definition sample_host :: "string host" where
  "sample_host =
     \<lparr>toStringFile = (\<lambda>f. f), toStringType = (\<lambda>t. ''Unknown''),
      getErrorLocation = (\<lambda>l. ''a.o:(.text+0x0): '')\<rparr>"

text \<open>A buffer holding the code unit \<open>w0\<close> at address 0 and \<open>w1\<close> at address 2.\<close>

definition sample_buffer :: "16 word \<Rightarrow> 16 word \<Rightarrow> buffer" where
  "sample_buffer w0 w1 = write16le (write16le (\<lambda>a. 0) 0 w0) 2 w1"

subsection \<open>The long-call target as the specification reads it back\<close>

text \<open>
  Stated from the specification's words, for comparison with what \<open>relocateOne\<close>
  writes: the program-memory word address held by the two code units of a long call,
  bits 17 to 21 in bits 4 to 8 of the first code unit, bit 16 in its bit 0, and the low
  16 bits in the second code unit.
\<close>

definition spec_call_word_address :: "16 word \<Rightarrow> 16 word \<Rightarrow> 64 word" where
  "spec_call_word_address w0 w1 =
     push_bit 17 (ucast (drop_bit 4 w0 AND 0x1f)) OR push_bit 16 (ucast (w0 AND 1)) OR ucast w1"

section \<open>Properties\<close>

subsection \<open>Classification\<close>

lemma getRelExpr_accepts_iff:
  "(snd (getRelExpr h Type File ds) = ds) = (Type \<in> set getRelExpr_cases)"
  by (simp add: getRelExpr_def getRelExpr_cases_def error_def)

lemma relocateOne_accepts_iff:
  "(snd (relocateOne h buf Loc Type Val ds) = ds) = (Type \<in> set relocateOne_cases)"
  by (simp add: relocateOne_def relocateOne_cases_def error_def Let_def)

text \<open>
  C1 (table completeness). A call emits no diagnostic exactly when the diagnostics it
  returns are the ones it was given. \<open>getRelExpr\<close> emits none exactly for the type
  codes among its \<open>case\<close> labels, \<open>relocateOne\<close> exactly for the codes among its
  own, and the two label tables hold the same codes: a type code is accepted by the one
  function if and only if it is accepted by the other, and every other code is rejected
  by both.
\<close>

theorem table_completeness:
  "set getRelExpr_cases = set relocateOne_cases
   \<and> (snd (getRelExpr h Type File ds) = ds) = (Type \<in> set getRelExpr_cases)
   \<and> (snd (relocateOne h' buf Loc Type Val ds) = ds) = (Type \<in> set relocateOne_cases)
   \<and> (snd (getRelExpr h Type File ds) = ds) = (snd (relocateOne h' buf Loc Type Val ds) = ds)"
proof -
  have tables: "set getRelExpr_cases = set relocateOne_cases"
    by (simp add: getRelExpr_cases_def relocateOne_cases_def)
  show ?thesis
    by (simp only: getRelExpr_accepts_iff relocateOne_accepts_iff tables simp_thms)
qed

text \<open>
  C2. \<open>getRelExpr\<close> returns \<open>R_PC\<close> for exactly the two branch kinds
  \<open>R_AVR_7_PCREL\<close> and \<open>R_AVR_13_PCREL\<close>, and \<open>R_ABS\<close> for exactly the other 29
  kinds it recognizes.
\<close>

theorem getRelExpr_classes:
  "(fst (getRelExpr h Type File ds) = R_PC) = (Type = R_AVR_7_PCREL \<or> Type = R_AVR_13_PCREL)
   \<and> (fst (getRelExpr h Type File ds) = R_ABS) =
       (Type \<in> {R_AVR_LO8_LDI, R_AVR_LDI, R_AVR_6, R_AVR_6_ADIW, R_AVR_HI8_LDI, R_AVR_HH8_LDI,
                R_AVR_MS8_LDI, R_AVR_LO8_LDI_NEG, R_AVR_HI8_LDI_NEG, R_AVR_HH8_LDI_NEG,
                R_AVR_MS8_LDI_NEG, R_AVR_LO8_LDI_GS, R_AVR_LO8_LDI_PM, R_AVR_HI8_LDI_GS,
                R_AVR_HI8_LDI_PM, R_AVR_HH8_LDI_PM, R_AVR_LO8_LDI_PM_NEG, R_AVR_HI8_LDI_PM_NEG,
                R_AVR_HH8_LDI_PM_NEG, R_AVR_8, R_AVR_8_LO8, R_AVR_8_HI8, R_AVR_8_HLO8,
                R_AVR_CALL, R_AVR_16, R_AVR_16_PM, R_AVR_LDS_STS_16, R_AVR_PORT6, R_AVR_PORT5})"
proof (intro conjI)
  show "(fst (getRelExpr h Type File ds) = R_PC) = (Type = R_AVR_7_PCREL \<or> Type = R_AVR_13_PCREL)"
    by (simp add: getRelExpr_def)
next
  show "(fst (getRelExpr h Type File ds) = R_ABS) =
       (Type \<in> {R_AVR_LO8_LDI, R_AVR_LDI, R_AVR_6, R_AVR_6_ADIW, R_AVR_HI8_LDI, R_AVR_HH8_LDI,
                R_AVR_MS8_LDI, R_AVR_LO8_LDI_NEG, R_AVR_HI8_LDI_NEG, R_AVR_HH8_LDI_NEG,
                R_AVR_MS8_LDI_NEG, R_AVR_LO8_LDI_GS, R_AVR_LO8_LDI_PM, R_AVR_HI8_LDI_GS,
                R_AVR_HI8_LDI_PM, R_AVR_HH8_LDI_PM, R_AVR_LO8_LDI_PM_NEG, R_AVR_HI8_LDI_PM_NEG,
                R_AVR_HH8_LDI_PM_NEG, R_AVR_8, R_AVR_8_LO8, R_AVR_8_HI8, R_AVR_8_HLO8,
                R_AVR_CALL, R_AVR_16, R_AVR_16_PM, R_AVR_LDS_STS_16, R_AVR_PORT6, R_AVR_PORT5})"
    unfolding getRelExpr_def R_AVR_defs by auto
qed

subsection \<open>Load-immediate and branch kinds\<close>

lemma less_16_cases:
  "i < LENGTH(16) \<Longrightarrow>
     i \<in> {15, 14, 13, 12, 11, 10, 9, 8, 7, 6, 5, 4, 3, 2, 1, 0::nat}"
  by simp arith

lemma read16le_write16le: "read16le (write16le buf Loc V) Loc = V"
  unfolding read16le_def write16le_def
  by (rule bit_word_eqI) (auto simp: bit_simps)

lemma calculateForLDI_nibbles:
  "calculateForLDI X (ucast (V :: 64 word)) =
     (X AND 0xf0f0) OR ucast (V AND 0xF) OR push_bit 8 (ucast (drop_bit 4 V AND 0xF))"
  unfolding calculateForLDI_def
  apply (rule bit_word_eqI)
  apply (drule less_16_cases)
  apply (elim insertE emptyE; simp add: bit_simps)
  done

lemma calculateForLDI_preserves: "calculateForLDI X S AND 0xf0f0 = X AND 0xf0f0"
  unfolding calculateForLDI_def
  apply (rule bit_word_eqI)
  apply (drule less_16_cases)
  apply (elim insertE emptyE; simp add: bit_simps)
  done

lemma relocateOne_LDI: "relocateOne h buf Loc R_AVR_LDI V ds =
    (write16le buf Loc (calculateForLDI (read16le buf Loc) (ucast V)), ds)"
  by (simp add: relocateOne_def R_AVR_defs)

lemma relocateOne_LO8_LDI: "relocateOne h buf Loc R_AVR_LO8_LDI V ds =
    (write16le buf Loc (calculateForLDI (read16le buf Loc) (ucast V)), ds)"
  by (simp add: relocateOne_def R_AVR_defs)

text \<open>
  C3 (load-immediate nibble law). For every 64-bit value \<open>V\<close> and every code unit
  \<open>W\<close> at the location, \<open>relocateOne\<close> with \<open>R_AVR_LDI\<close> or \<open>R_AVR_LO8_LDI\<close>
  writes at the location the code unit \<open>(W & 0xf0f0) | (V & 0xF) | (((V >> 4) & 0xF) << 8)\<close>
  and nothing else, and the code unit read back agrees with \<open>W\<close> on every bit of the
  mask \<open>0xf0f0\<close>.
\<close>

theorem relocateOne_LDI_nibble_law:
  "relocateOne h buf Loc R_AVR_LDI V ds =
     (write16le buf Loc
        ((read16le buf Loc AND 0xf0f0) OR ucast (V AND 0xF)
         OR push_bit 8 (ucast (drop_bit 4 V AND 0xF))), ds)
   \<and> relocateOne h buf Loc R_AVR_LO8_LDI V ds =
     (write16le buf Loc
        ((read16le buf Loc AND 0xf0f0) OR ucast (V AND 0xF)
         OR push_bit 8 (ucast (drop_bit 4 V AND 0xF))), ds)
   \<and> read16le (fst (relocateOne h buf Loc R_AVR_LDI V ds)) Loc AND 0xf0f0 =
       read16le buf Loc AND 0xf0f0
   \<and> read16le (fst (relocateOne h buf Loc R_AVR_LO8_LDI V ds)) Loc AND 0xf0f0 =
       read16le buf Loc AND 0xf0f0"
proof (intro conjI)
  show "relocateOne h buf Loc R_AVR_LDI V ds =
     (write16le buf Loc
        ((read16le buf Loc AND 0xf0f0) OR ucast (V AND 0xF)
         OR push_bit 8 (ucast (drop_bit 4 V AND 0xF))), ds)"
    by (simp only: relocateOne_LDI calculateForLDI_nibbles)
  show "relocateOne h buf Loc R_AVR_LO8_LDI V ds =
     (write16le buf Loc
        ((read16le buf Loc AND 0xf0f0) OR ucast (V AND 0xF)
         OR push_bit 8 (ucast (drop_bit 4 V AND 0xF))), ds)"
    by (simp only: relocateOne_LO8_LDI calculateForLDI_nibbles)
  show "read16le (fst (relocateOne h buf Loc R_AVR_LDI V ds)) Loc AND 0xf0f0 =
       read16le buf Loc AND 0xf0f0"
    by (simp only: relocateOne_LDI fst_conv read16le_write16le calculateForLDI_preserves)
  show "read16le (fst (relocateOne h buf Loc R_AVR_LO8_LDI V ds)) Loc AND 0xf0f0 =
       read16le buf Loc AND 0xf0f0"
    by (simp only: relocateOne_LO8_LDI fst_conv read16le_write16le calculateForLDI_preserves)
qed

text \<open>
  C4 (load-immediate example), as the code computes it: with the code unit \<open>0xE0A0\<close>
  at the location, \<open>relocateOne\<close> with \<open>R_AVR_LO8_LDI\<close> and the value \<open>0x3F7A\<close>
  writes the code unit \<open>0xE7AA\<close>: the low nibble \<open>0xA\<close> of the value goes to bits
  0 to 3, its nibble \<open>0x7\<close> to bits 8 to 11, and the bits \<open>0xE0A0\<close> under the mask
  \<open>0xf0f0\<close> stay.
\<close>

theorem relocateOne_LO8_LDI_example:
  assumes "read16le buf Loc = 0xE0A0"
  shows "relocateOne h buf Loc R_AVR_LO8_LDI 0x3F7A ds = (write16le buf Loc 0xE7AA, ds)"
  using assms by (simp add: relocateOne_LO8_LDI calculateForLDI_def)

text \<open>The example on a concrete buffer.\<close>

theorem relocateOne_LO8_LDI_example_witness:
  "read16le (sample_buffer 0xE0A0 0) 0 = 0xE0A0
   \<and> relocateOne sample_host (sample_buffer 0xE0A0 0) 0 R_AVR_LO8_LDI 0x3F7A [] =
       (write16le (sample_buffer 0xE0A0 0) 0 0xE7AA, [])"
proof -
  have w: "read16le (sample_buffer 0xE0A0 0) 0 = 0xE0A0"
    by (simp add: sample_buffer_def read16le_def write16le_def)
  show ?thesis
    by (rule conjI [OF w relocateOne_LO8_LDI_example [OF w]])
qed

text \<open>
  C4 as the specification states it expects the code unit \<open>0xE07A\<close>; the code unit
  written is another one.
\<close>

theorem relocateOne_LO8_LDI_example_not_E07A:
  "read16le (fst (relocateOne sample_host (sample_buffer 0xE0A0 0) 0 R_AVR_LO8_LDI 0x3F7A [])) 0
     \<noteq> 0xE07A"
  by (simp add: relocateOne_LO8_LDI read16le_write16le calculateForLDI_def
      sample_buffer_def read16le_def write16le_def)

text \<open>
  C5 (branch displacement). With the code unit \<open>0x9401\<close> at the location,
  \<open>relocateOne\<close> with \<open>R_AVR_13_PCREL\<close> and the delta 10 writes the code unit
  \<open>(0x9401 & 0xf000) | (((10 - 2) >> 1) & 0xfff) = 0x9004\<close>.
\<close>

theorem relocateOne_13_PCREL_example:
  assumes "read16le buf Loc = 0x9401"
  shows "relocateOne h buf Loc R_AVR_13_PCREL 10 ds = (write16le buf Loc 0x9004, ds)
     \<and> (0x9004 :: 16 word) = (0x9401 AND 0xf000) OR (drop_bit 1 (10 - 2) AND 0xfff)"
  using assms
  by (simp add: relocateOne_def R_AVR_defs adjustRelativeBranch_def adjustPM_def)

text \<open>The example on a concrete buffer.\<close>

theorem relocateOne_13_PCREL_example_witness:
  "read16le (sample_buffer 0x9401 0) 0 = 0x9401
   \<and> relocateOne sample_host (sample_buffer 0x9401 0) 0 R_AVR_13_PCREL 10 [] =
       (write16le (sample_buffer 0x9401 0) 0 0x9004, [])
   \<and> (0x9004 :: 16 word) = (0x9401 AND 0xf000) OR (drop_bit 1 (10 - 2) AND 0xfff)"
proof -
  have w: "read16le (sample_buffer 0x9401 0) 0 = 0x9401"
    by (simp add: sample_buffer_def read16le_def write16le_def)
  show ?thesis
    by (rule conjI [OF w relocateOne_13_PCREL_example [OF w]])
qed

subsection \<open>Negated kinds\<close>

lemma narrow16_promote_s16: "narrow16 (promote_s16 x) = x"
  by (rule bit_word_eqI) (auto simp: bit_simps)

lemma narrow16_of_int: "narrow16 (word_of_int k) = word_of_int k"
  by (rule bit_word_eqI) (auto simp: bit_simps)

lemma narrow16_mult: "narrow16 (a * b) = narrow16 a * narrow16 b"
proof -
  have "narrow16 (a * b) = narrow16 (word_of_int (uint a * uint b))"
    by simp
  also have "\<dots> = word_of_int (uint a * uint b)"
    by (rule narrow16_of_int)
  also have "\<dots> = word_of_int (uint a) * word_of_int (uint b)"
    by simp
  also have "\<dots> = narrow16 (word_of_int (uint a)) * narrow16 (word_of_int (uint b))"
    by (simp only: narrow16_of_int)
  finally show ?thesis by simp
qed

lemma narrow16_minus_one: "narrow16 (- 1) = - 1"
  by (rule bit_word_eqI) (auto simp: bit_simps)

lemma adjustNeg_eq_uminus: "adjustNeg x = - x"
proof -
  have "adjustNeg x = narrow16 (promote_s16 x) * narrow16 (- 1)"
    unfolding adjustNeg_def by (rule narrow16_mult)
  also have "\<dots> = x * (- 1)"
    by (simp only: narrow16_promote_s16 narrow16_minus_one)
  finally show ?thesis by simp
qed

lemma ucast_uminus_64_16: "(ucast (- (v :: 64 word)) :: 16 word) = - ucast v"
proof -
  have d: "\<And>k. (ucast (word_of_int k :: 64 word) :: 16 word) = word_of_int k"
    by (rule bit_word_eqI) (auto simp: bit_simps)
  have "(ucast (- v) :: 16 word) = ucast (word_of_int (- uint v) :: 64 word)"
    by simp
  also have "\<dots> = word_of_int (- uint v)"
    by (rule d)
  also have "\<dots> = - word_of_int (uint v)"
    by simp
  also have "\<dots> = - ucast (word_of_int (uint v) :: 64 word)"
    by (simp only: d)
  finally show ?thesis by simp
qed

lemma adjustNeg_ucast: "adjustNeg (ucast (V :: 64 word)) = ucast (- V)"
  by (simp only: adjustNeg_eq_uminus ucast_uminus_64_16)

text \<open>
  A negated kind applied to \<open>V\<close> does what its plain kind does applied to \<open>- V\<close>,
  for every 64-bit value: keeping the low 16 bits commutes with negation.
\<close>

lemma relocateOne_neg_eq_plain_uminus:
  "relocateOne h buf Loc R_AVR_LO8_LDI_NEG V ds = relocateOne h buf Loc R_AVR_LO8_LDI (- V) ds"
  "relocateOne h buf Loc R_AVR_HI8_LDI_NEG V ds = relocateOne h buf Loc R_AVR_HI8_LDI (- V) ds"
  "relocateOne h buf Loc R_AVR_HH8_LDI_NEG V ds = relocateOne h buf Loc R_AVR_HH8_LDI (- V) ds"
  "relocateOne h buf Loc R_AVR_MS8_LDI_NEG V ds = relocateOne h buf Loc R_AVR_MS8_LDI (- V) ds"
  "relocateOne h buf Loc R_AVR_LO8_LDI_PM_NEG V ds =
     relocateOne h buf Loc R_AVR_LO8_LDI_PM (- V) ds"
  "relocateOne h buf Loc R_AVR_HI8_LDI_PM_NEG V ds =
     relocateOne h buf Loc R_AVR_HI8_LDI_PM (- V) ds"
  "relocateOne h buf Loc R_AVR_HH8_LDI_PM_NEG V ds =
     relocateOne h buf Loc R_AVR_HH8_LDI_PM (- V) ds"
  by (simp_all add: relocateOne_def R_AVR_defs adjustNeg_ucast)

text \<open>
  C6 (negation law). For every value \<open>V\<close> in the signed 16-bit range, every buffer
  and every location, \<open>relocateOne\<close> with a negated kind and \<open>V\<close> returns the very
  buffer and diagnostics that \<open>relocateOne\<close> with the plain kind and \<open>- V\<close> returns,
  for each of the seven pairs.
\<close>

theorem relocateOne_negation_law:
  assumes "- 32768 \<le> sint V" and "sint V \<le> 32767"
  shows
  "relocateOne h buf Loc R_AVR_LO8_LDI_NEG V ds = relocateOne h buf Loc R_AVR_LO8_LDI (- V) ds
   \<and> relocateOne h buf Loc R_AVR_HI8_LDI_NEG V ds = relocateOne h buf Loc R_AVR_HI8_LDI (- V) ds
   \<and> relocateOne h buf Loc R_AVR_HH8_LDI_NEG V ds = relocateOne h buf Loc R_AVR_HH8_LDI (- V) ds
   \<and> relocateOne h buf Loc R_AVR_MS8_LDI_NEG V ds = relocateOne h buf Loc R_AVR_MS8_LDI (- V) ds
   \<and> relocateOne h buf Loc R_AVR_LO8_LDI_PM_NEG V ds =
       relocateOne h buf Loc R_AVR_LO8_LDI_PM (- V) ds
   \<and> relocateOne h buf Loc R_AVR_HI8_LDI_PM_NEG V ds =
       relocateOne h buf Loc R_AVR_HI8_LDI_PM (- V) ds
   \<and> relocateOne h buf Loc R_AVR_HH8_LDI_PM_NEG V ds =
       relocateOne h buf Loc R_AVR_HH8_LDI_PM (- V) ds"
  by (intro conjI) (rule relocateOne_neg_eq_plain_uminus)+

text \<open>The law at \<open>V = 0x1234\<close>, where both sides write the code unit \<open>0xEEAD\<close>.\<close>

theorem relocateOne_negation_law_witness:
  "(- 32768 \<le> sint (0x1234 :: 64 word) \<and> sint (0x1234 :: 64 word) \<le> 32767)
   \<and> relocateOne sample_host (sample_buffer 0xE0A0 0) 0 R_AVR_HI8_LDI_NEG 0x1234 [] =
       relocateOne sample_host (sample_buffer 0xE0A0 0) 0 R_AVR_HI8_LDI (- 0x1234) []
   \<and> fst (relocateOne sample_host (sample_buffer 0xE0A0 0) 0 R_AVR_HI8_LDI_NEG 0x1234 []) =
       write16le (sample_buffer 0xE0A0 0) 0 0xEEAD"
proof -
  have lo: "- 32768 \<le> sint (0x1234 :: 64 word)" and hi: "sint (0x1234 :: 64 word) \<le> 32767"
    by simp_all
  note law = relocateOne_negation_law [OF lo hi, of sample_host "sample_buffer 0xE0A0 0" 0 "[]"]
  have val: "fst (relocateOne sample_host (sample_buffer 0xE0A0 0) 0 R_AVR_HI8_LDI_NEG 0x1234 []) =
       write16le (sample_buffer 0xE0A0 0) 0 0xEEAD"
    by (simp add: relocateOne_def R_AVR_defs adjustNeg_def calculateForLDI_def
        sample_buffer_def read16le_def write16le_def)
  from lo hi law val show ?thesis by blast
qed

subsection \<open>The long call\<close>

text \<open>
  C7 (long call), evaluated on the code. The value \<open>0x30000\<close> is the byte address of
  the program-memory word \<open>0x18000\<close>, which has bit 16 set. On the code units \<open>0x940E\<close>
  and \<open>0xFFFF\<close>, \<open>relocateOne\<close> with \<open>R_AVR_CALL\<close> leaves the first code unit as
  \<open>0x940E\<close> and writes \<open>0x0000\<close> as the second: the word address read back from the
  two code units is 0, not \<open>0x18000\<close>. Indeed the value \<open>0x30000\<close> and the value 0
  give the same buffer, whatever the buffer and the location.
\<close>

theorem relocateOne_CALL_high_bits_lost:
  "read16le (fst (relocateOne sample_host (sample_buffer 0x940E 0xFFFF) 0 R_AVR_CALL 0x30000 [])) 0
     = 0x940E
   \<and> read16le (fst (relocateOne sample_host (sample_buffer 0x940E 0xFFFF) 0 R_AVR_CALL 0x30000 [])) 2
     = 0x0000
   \<and> spec_call_word_address
       (read16le (fst (relocateOne sample_host (sample_buffer 0x940E 0xFFFF) 0 R_AVR_CALL 0x30000 [])) 0)
       (read16le (fst (relocateOne sample_host (sample_buffer 0x940E 0xFFFF) 0 R_AVR_CALL 0x30000 [])) 2)
     = 0
   \<and> drop_bit 1 (0x30000 :: 64 word) = 0x18000
   \<and> relocateOne h buf Loc R_AVR_CALL 0x30000 ds = relocateOne h buf Loc R_AVR_CALL 0 ds"
proof (intro conjI)
  show "spec_call_word_address
       (read16le (fst (relocateOne sample_host (sample_buffer 0x940E 0xFFFF) 0 R_AVR_CALL 0x30000 [])) 0)
       (read16le (fst (relocateOne sample_host (sample_buffer 0x940E 0xFFFF) 0 R_AVR_CALL 0x30000 [])) 2)
     = 0"
    by (simp add: relocateOne_def R_AVR_defs adjustPM_def sample_buffer_def read16le_def
        write16le_def spec_call_word_address_def)
  show "drop_bit 1 (0x30000 :: 64 word) = 0x18000"
    by simp
  show "read16le (fst (relocateOne sample_host (sample_buffer 0x940E 0xFFFF) 0 R_AVR_CALL 0x30000 [])) 0
     = 0x940E"
    by (simp add: relocateOne_def R_AVR_defs adjustPM_def sample_buffer_def read16le_def
        write16le_def)
  show "read16le (fst (relocateOne sample_host (sample_buffer 0x940E 0xFFFF) 0 R_AVR_CALL 0x30000 [])) 2
     = 0x0000"
    by (simp add: relocateOne_def R_AVR_defs adjustPM_def sample_buffer_def read16le_def
        write16le_def)
  show "relocateOne h buf Loc R_AVR_CALL 0x30000 ds = relocateOne h buf Loc R_AVR_CALL 0 ds"
    by (simp add: relocateOne_def R_AVR_defs adjustPM_def)
qed

subsection \<open>Pure data kinds\<close>

text \<open>
  C8 as the specification states it asks the code unit read back to be the byte lane
  \<open>(V >> s) & 0xFF\<close>. It is not: \<open>R_AVR_8_LO8\<close> with \<open>0x1234\<close> leaves \<open>0x1234\<close>,
  \<open>R_AVR_8_HI8\<close> with \<open>0x8000\<close> leaves \<open>0xFF80\<close>, and \<open>R_AVR_8_HLO8\<close> with
  \<open>0x10000\<close> leaves 0.
\<close>

theorem relocateOne_pure_data_not_byte_lane:
  "read16le (fst (relocateOne sample_host (sample_buffer 0 0) 0 R_AVR_8_LO8 0x1234 [])) 0
     \<noteq> ucast (drop_bit 0 (0x1234 :: 64 word) AND 0xFF)
   \<and> read16le (fst (relocateOne sample_host (sample_buffer 0 0) 0 R_AVR_8_HI8 0x8000 [])) 0
     \<noteq> ucast (drop_bit 8 (0x8000 :: 64 word) AND 0xFF)
   \<and> read16le (fst (relocateOne sample_host (sample_buffer 0 0) 0 R_AVR_8_HLO8 0x10000 [])) 0
     \<noteq> ucast (drop_bit 16 (0x10000 :: 64 word) AND 0xFF)"
  by (simp add: relocateOne_def R_AVR_defs read16le_write16le)

text \<open>A 64-bit value in the signed 16-bit range repeats its bit 15 in every higher bit.\<close>

lemma in_range_bits:
  fixes V :: "64 word"
  assumes "- 32768 \<le> sint V" and "sint V \<le> 32767" and "15 < n" and "n < 64"
  shows "bit V n = bit V 15"
proof -
  have "signed_take_bit 15 (sint V) = sint V"
    using assms(1,2) by (simp add: signed_take_bit_int_eq_self_iff)
  then have "bit (sint V) n = bit (signed_take_bit 15 (sint V)) n"
    by simp
  also have "\<dots> = bit (sint V) 15"
    using assms(3) by (simp add: bit_signed_take_bit_iff min_def)
  finally show ?thesis
    using assms(4) by (simp add: bit_sint_iff)
qed

lemma relocateOne_8: "relocateOne h buf Loc R_AVR_8 V ds =
    (write16le buf Loc (narrow16 (promote_s16 (ucast V) AND 0xff)), ds)"
  by (simp add: relocateOne_def R_AVR_defs)

lemma relocateOne_8_LO8: "relocateOne h buf Loc R_AVR_8_LO8 V ds =
    (write16le buf Loc (narrow16 (promote_s16 (ucast V) AND 0xffffff)), ds)"
  by (simp add: relocateOne_def R_AVR_defs)

lemma relocateOne_8_HI8: "relocateOne h buf Loc R_AVR_8_HI8 V ds =
    (write16le buf Loc (narrow16 (signed_drop_bit 8 (promote_s16 (ucast V)) AND 0xffffff)), ds)"
  by (simp add: relocateOne_def R_AVR_defs)

lemma relocateOne_8_HLO8: "relocateOne h buf Loc R_AVR_8_HLO8 V ds =
    (write16le buf Loc (narrow16 (signed_drop_bit 16 (promote_s16 (ucast V)) AND 0xffffff)), ds)"
  by (simp add: relocateOne_def R_AVR_defs)

lemma lane_8: "narrow16 (promote_s16 (ucast (V :: 64 word)) AND 0xff) = ucast (V AND 0xFF)"
  apply (rule bit_word_eqI)
  apply (drule less_16_cases)
  apply (elim insertE emptyE; simp add: bit_simps)
  done

lemma lane_8_LO8:
  "narrow16 (promote_s16 (ucast (V :: 64 word)) AND 0xffffff) = ucast (V AND 0xFFFF)"
  apply (rule bit_word_eqI)
  apply (drule less_16_cases)
  apply (elim insertE emptyE; simp add: bit_simps)
  done

lemma lane_8_HI8:
  fixes V :: "64 word"
  assumes "- 32768 \<le> sint V" and "sint V \<le> 32767"
  shows "narrow16 (signed_drop_bit 8 (promote_s16 (ucast V)) AND 0xffffff) =
     ucast (drop_bit 8 V AND 0xFFFF)"
  apply (rule bit_word_eqI)
  apply (drule less_16_cases)
  apply (elim insertE emptyE; simp add: bit_simps in_range_bits [OF assms])
  done

lemma lane_8_HLO8:
  fixes V :: "64 word"
  assumes "- 32768 \<le> sint V" and "sint V \<le> 32767"
  shows "narrow16 (signed_drop_bit 16 (promote_s16 (ucast V)) AND 0xffffff) =
     ucast (drop_bit 16 V AND 0xFFFF)"
  apply (rule bit_word_eqI)
  apply (drule less_16_cases)
  apply (elim insertE emptyE; simp add: bit_simps in_range_bits [OF assms])
  done

text \<open>
  C8 (pure-data law), as the code computes it. The code unit read back at the location
  after \<open>relocateOne\<close> is \<open>V & 0xFF\<close> for \<open>R_AVR_8\<close> and \<open>V & 0xFFFF\<close> for
  \<open>R_AVR_8_LO8\<close>, for every value \<open>V\<close>; for every \<open>V\<close> in the signed 16-bit range it
  is \<open>(V >> 8) & 0xFFFF\<close> for \<open>R_AVR_8_HI8\<close> and \<open>(V >> 16) & 0xFFFF\<close> for
  \<open>R_AVR_8_HLO8\<close>.
\<close>

theorem relocateOne_pure_data_law:
  "read16le (fst (relocateOne h buf Loc R_AVR_8 V ds)) Loc = ucast (V AND 0xFF)
   \<and> read16le (fst (relocateOne h buf Loc R_AVR_8_LO8 V ds)) Loc = ucast (V AND 0xFFFF)
   \<and> (- 32768 \<le> sint V \<and> sint V \<le> 32767 \<longrightarrow>
        read16le (fst (relocateOne h buf Loc R_AVR_8_HI8 V ds)) Loc =
          ucast (drop_bit 8 V AND 0xFFFF)
        \<and> read16le (fst (relocateOne h buf Loc R_AVR_8_HLO8 V ds)) Loc =
          ucast (drop_bit 16 V AND 0xFFFF))"
proof (intro conjI impI)
  show "read16le (fst (relocateOne h buf Loc R_AVR_8 V ds)) Loc = ucast (V AND 0xFF)"
    by (simp only: relocateOne_8 fst_conv read16le_write16le lane_8)
  show "read16le (fst (relocateOne h buf Loc R_AVR_8_LO8 V ds)) Loc = ucast (V AND 0xFFFF)"
    by (simp only: relocateOne_8_LO8 fst_conv read16le_write16le lane_8_LO8)
next
  assume r: "- 32768 \<le> sint V \<and> sint V \<le> 32767"
  then show "read16le (fst (relocateOne h buf Loc R_AVR_8_HI8 V ds)) Loc =
          ucast (drop_bit 8 V AND 0xFFFF)"
    by (simp only: relocateOne_8_HI8 fst_conv read16le_write16le lane_8_HI8)
next
  assume r: "- 32768 \<le> sint V \<and> sint V \<le> 32767"
  then show "read16le (fst (relocateOne h buf Loc R_AVR_8_HLO8 V ds)) Loc =
          ucast (drop_bit 16 V AND 0xFFFF)"
    by (simp only: relocateOne_8_HLO8 fst_conv read16le_write16le lane_8_HLO8)
qed

text \<open>The law at \<open>V = - 0x8000\<close>, the least value of the range.\<close>

theorem relocateOne_pure_data_law_witness:
  "(- 32768 \<le> sint (- 0x8000 :: 64 word) \<and> sint (- 0x8000 :: 64 word) \<le> 32767)
   \<and> read16le (fst (relocateOne sample_host (sample_buffer 0 0) 0 R_AVR_8_HI8 (- 0x8000) [])) 0
       = 0xFF80
   \<and> read16le (fst (relocateOne sample_host (sample_buffer 0 0) 0 R_AVR_8_HLO8 (- 0x8000) [])) 0
       = 0xFFFF"
proof -
  have r: "- 32768 \<le> sint (- 0x8000 :: 64 word) \<and> sint (- 0x8000 :: 64 word) \<le> 32767"
    by simp
  have e8: "(ucast (drop_bit 8 (- 0x8000 :: 64 word) AND 0xFFFF) :: 16 word) = 0xFF80"
    by simp
  have e16: "(ucast (drop_bit 16 (- 0x8000 :: 64 word) AND 0xFFFF) :: 16 word) = 0xFFFF"
    by simp
  from relocateOne_pure_data_law [of sample_host "sample_buffer 0 0" 0 "- 0x8000" "[]"] r
  have "read16le (fst (relocateOne sample_host (sample_buffer 0 0) 0 R_AVR_8_HI8 (- 0x8000) [])) 0
          = ucast (drop_bit 8 (- 0x8000 :: 64 word) AND 0xFFFF)
        \<and> read16le (fst (relocateOne sample_host (sample_buffer 0 0) 0 R_AVR_8_HLO8 (- 0x8000) [])) 0
          = ucast (drop_bit 16 (- 0x8000 :: 64 word) AND 0xFFFF)"
    by blast
  with r show ?thesis
    by (simp only: e8 e16 simp_thms)
qed

subsection \<open>Unknown kinds\<close>

text \<open>
  C9 (unknown kind). For a type code outside the tables, \<open>getRelExpr\<close> returns
  \<open>R_HINT\<close> and adds exactly one message to the diagnostics, and \<open>relocateOne\<close> returns
  the buffer it was given, every byte unchanged, and adds exactly one message. Both
  return: \<open>error\<close> records the message and hands control back.
\<close>

theorem unknown_kind_behaviour:
  assumes "Type \<notin> set getRelExpr_cases"
  shows "getRelExpr h Type File ds =
      (R_HINT, ds @ [toStringFile h File @ '': unknown relocation type: '' @ toStringType h Type])
    \<and> relocateOne h' buf Loc Type Val ds =
      (buf, ds @ [getErrorLocation h' Loc @ ''unrecognized reloc '' @ toStringType h' Type])
    \<and> length (snd (getRelExpr h Type File ds)) = Suc (length ds)
    \<and> length (snd (relocateOne h' buf Loc Type Val ds)) = Suc (length ds)"
proof -
  have g: "getRelExpr h Type File ds =
      (R_HINT, ds @ [toStringFile h File @ '': unknown relocation type: '' @ toStringType h Type])"
    using assms by (simp add: getRelExpr_def getRelExpr_cases_def error_def)
  have r: "relocateOne h' buf Loc Type Val ds =
      (buf, ds @ [getErrorLocation h' Loc @ ''unrecognized reloc '' @ toStringType h' Type])"
    using assms by (simp add: relocateOne_def getRelExpr_cases_def error_def)
  show ?thesis
    by (simp add: g r)
qed

text \<open>The type code 0 (\<open>R_AVR_NONE\<close>) is outside the tables.\<close>

theorem unknown_kind_behaviour_witness:
  "(0 :: 32 word) \<notin> set getRelExpr_cases
   \<and> getRelExpr sample_host 0 ''a.o'' [] =
       (R_HINT, [''a.o: unknown relocation type: Unknown''])
   \<and> relocateOne sample_host (sample_buffer 0x940E 0x1234) 0 0 0x30000 [] =
       (sample_buffer 0x940E 0x1234, [''a.o:(.text+0x0): unrecognized reloc Unknown''])"
proof -
  have w: "(0 :: 32 word) \<notin> set getRelExpr_cases"
    by (simp add: getRelExpr_cases_def R_AVR_defs)
  from unknown_kind_behaviour [OF w, of sample_host "''a.o''" "[]" sample_host
      "sample_buffer 0x940E 0x1234" 0 "0x30000"]
  show ?thesis
    using w by (simp add: sample_host_def)
qed

subsection \<open>Truncation to 16 bits\<close>

text \<open>
  A shift of the promoted \<open>int16_t\<close> by 16 or 24 leaves copies of its sign bit, and so do
  the masks \<open>0x10000\<close> and \<open>0x1f00000\<close> of the long call.
\<close>

lemma sign_lane_16:
  "narrow16 (signed_drop_bit 16 (promote_s16 s) AND 0xff) = (if bit s 15 then 0xff else 0)"
  apply (rule bit_word_eqI)
  apply (drule less_16_cases)
  apply (elim insertE emptyE; simp add: bit_simps)
  done

lemma sign_lane_24:
  "narrow16 (signed_drop_bit 24 (promote_s16 s) AND 0xff) = (if bit s 15 then 0xff else 0)"
  apply (rule bit_word_eqI)
  apply (drule less_16_cases)
  apply (elim insertE emptyE; simp add: bit_simps)
  done

lemma sign_fields_CALL:
  "narrow16 (promote_u16 X OR signed_drop_bit 16
       ((promote_s16 s AND 0x10000) OR (push_bit 3 (promote_s16 s) AND 0x1f00000)))
     = X OR (if bit s 15 then 0x1f1 else 0)"
  apply (rule bit_word_eqI)
  apply (drule less_16_cases)
  apply (elim insertE emptyE; simp add: bit_simps)
  done

lemma bit_15_adjustPM: "bit (adjustPM s) 15 = bit s 15"
  by (simp add: adjustPM_def bit_simps)

lemma relocateOne_low16:
  assumes "(ucast V1 :: 16 word) = ucast V2"
  shows "relocateOne h buf Loc Type V1 ds = relocateOne h buf Loc Type (V2 :: 64 word) ds"
  by (simp only: relocateOne_def assms)

lemma bit_15_ucast: "bit (ucast (V :: 64 word) :: 16 word) 15 = bit V 15"
  by (simp add: bit_simps)

lemma narrow16_low16: "narrow16 (promote_s16 s AND 0xffff) = s"
  apply (rule bit_word_eqI)
  apply (drule less_16_cases)
  apply (elim insertE emptyE; simp add: bit_simps)
  done

lemma relocateOne_high_lanes:
  "relocateOne h buf Loc R_AVR_HH8_LDI V ds =
     (write16le buf Loc (calculateForLDI (read16le buf Loc) (if bit V 15 then 0xff else 0)), ds)"
  "relocateOne h buf Loc R_AVR_MS8_LDI V ds =
     (write16le buf Loc (calculateForLDI (read16le buf Loc) (if bit V 15 then 0xff else 0)), ds)"
  "relocateOne h buf Loc R_AVR_HH8_LDI_NEG V ds =
     (write16le buf Loc (calculateForLDI (read16le buf Loc) (if bit (- V) 15 then 0xff else 0)),
      ds)"
  "relocateOne h buf Loc R_AVR_MS8_LDI_NEG V ds =
     (write16le buf Loc (calculateForLDI (read16le buf Loc) (if bit (- V) 15 then 0xff else 0)),
      ds)"
  "relocateOne h buf Loc R_AVR_HH8_LDI_PM V ds =
     (write16le buf Loc (calculateForLDI (read16le buf Loc) (if bit V 15 then 0xff else 0)), ds)"
  "relocateOne h buf Loc R_AVR_HH8_LDI_PM_NEG V ds =
     (write16le buf Loc (calculateForLDI (read16le buf Loc) (if bit (- V) 15 then 0xff else 0)),
      ds)"
  by (simp_all add: relocateOne_def R_AVR_defs sign_lane_16 sign_lane_24 bit_15_adjustPM
      adjustNeg_ucast bit_15_ucast)

lemma relocateOne_CALL_fields:
  "relocateOne h buf Loc R_AVR_CALL V ds =
     (write16le (write16le buf Loc (read16le buf Loc OR (if bit V 15 then 0x1f1 else 0)))
        (Loc + 2) (adjustPM (ucast V)), ds)"
  by (simp add: relocateOne_def R_AVR_defs sign_fields_CALL bit_15_adjustPM bit_15_ucast
      narrow16_low16)

text \<open>
  C10 (truncation). \<open>relocateOne\<close> depends on the value only through its low 16 bits:
  two values that agree modulo \<open>2^16\<close> give the same buffer and diagnostics, for every
  type code, location and buffer. In particular the byte lane that \<open>R_AVR_HH8_LDI\<close>,
  \<open>R_AVR_MS8_LDI\<close> and their negated and program-memory variants select with \<open>>> 16\<close>
  or \<open>>> 24\<close> is \<open>0xff\<close> or 0 by the sign bit (bit 15) of the 16-bit working value, and
  the high-bit fields that \<open>R_AVR_CALL\<close> merges into the first code unit are \<open>0x1f1\<close>
  or 0 by bit 15 of the value: bits 16 and above of the 64-bit value are never read.
\<close>

theorem relocateOne_truncation_noninterference:
  "((ucast V1 :: 16 word) = ucast V2 \<longrightarrow>
      relocateOne h buf Loc Type V1 ds = relocateOne h buf Loc Type V2 ds)
   \<and> relocateOne h buf Loc R_AVR_HH8_LDI V ds =
     (write16le buf Loc (calculateForLDI (read16le buf Loc) (if bit V 15 then 0xff else 0)), ds)
   \<and> relocateOne h buf Loc R_AVR_MS8_LDI V ds =
     (write16le buf Loc (calculateForLDI (read16le buf Loc) (if bit V 15 then 0xff else 0)), ds)
   \<and> relocateOne h buf Loc R_AVR_HH8_LDI_NEG V ds =
     (write16le buf Loc (calculateForLDI (read16le buf Loc) (if bit (- V) 15 then 0xff else 0)),
      ds)
   \<and> relocateOne h buf Loc R_AVR_MS8_LDI_NEG V ds =
     (write16le buf Loc (calculateForLDI (read16le buf Loc) (if bit (- V) 15 then 0xff else 0)),
      ds)
   \<and> relocateOne h buf Loc R_AVR_HH8_LDI_PM V ds =
     (write16le buf Loc (calculateForLDI (read16le buf Loc) (if bit V 15 then 0xff else 0)), ds)
   \<and> relocateOne h buf Loc R_AVR_HH8_LDI_PM_NEG V ds =
     (write16le buf Loc (calculateForLDI (read16le buf Loc) (if bit (- V) 15 then 0xff else 0)),
      ds)
   \<and> relocateOne h buf Loc R_AVR_CALL V ds =
     (write16le (write16le buf Loc (read16le buf Loc OR (if bit V 15 then 0x1f1 else 0)))
        (Loc + 2) (adjustPM (ucast V)), ds)"
  by (intro conjI impI)
     (erule relocateOne_low16, (rule relocateOne_high_lanes)+, rule relocateOne_CALL_fields)

text \<open>The values \<open>0x12345\<close> and \<open>0x2345\<close> agree on their low 16 bits.\<close>

theorem relocateOne_truncation_noninterference_witness:
  "(ucast (0x12345 :: 64 word) :: 16 word) = ucast (0x2345 :: 64 word)
   \<and> relocateOne sample_host (sample_buffer 0x940E 0) 0 R_AVR_CALL 0x12345 [] =
       relocateOne sample_host (sample_buffer 0x940E 0) 0 R_AVR_CALL 0x2345 []"
proof -
  have w: "(ucast (0x12345 :: 64 word) :: 16 word) = ucast (0x2345 :: 64 word)"
    by simp
  from relocateOne_truncation_noninterference
    [of "0x12345" "0x2345" sample_host "sample_buffer 0x940E 0" 0 R_AVR_CALL "[]"] w
  show ?thesis
    by blast
qed

end
